theory Spec2Isabelle
  imports Main "HOL-Library.Sublist"
begin

section \<open>The SQL Server dialect of the ORM (client/orm/db_mssql.go)\<close>

text \<open>
  Go strings are byte sequences; they are modelled as \<^typ>\<open>string\<close> (a list of
  \<^typ>\<open>char\<close>, one per byte). The file uses four functions of Go's standard library,
  \<^verbatim>\<open>strings.Split\<close>, \<^verbatim>\<open>strings.ToLower\<close>, \<^verbatim>\<open>strconv.FormatInt\<close> and \<^verbatim>\<open>fmt.Sprintf\<close>;
  they are modelled first, each on the inputs this file gives it. The operator
  table, the reserved words, \<^verbatim>\<open>ReplaceMarks\<close>, the column and index queries and the
  two capability functions follow, under the names they have in the Go file.
\<close>

subsection \<open>Standard-library functions\<close>

text \<open>
  \<^verbatim>\<open>strings.Split(s, sep)\<close> for a one-byte separator (both call sites pass one:
  \<^verbatim>\<open>"?"\<close> and \<^verbatim>\<open>","\<close>). As in Go's loop, the text before the first separator is one
  piece and the rest is split on; a string with no separator is a single piece.
\<close>

function Split :: "string \<Rightarrow> char \<Rightarrow> string list" where
  "Split s sep =
     (case dropWhile (\<lambda>c. c \<noteq> sep) s of
        [] \<Rightarrow> [s]
      | _ # rest \<Rightarrow> takeWhile (\<lambda>c. c \<noteq> sep) s # Split rest sep)"
  by pat_completeness auto
termination
proof (relation "measure (\<lambda>(s, sep). length s)")
  show "wf (measure (\<lambda>(s, sep). length s))" by simp
next
  fix s :: string and sep :: char and x21 :: char and x22 :: string
  assume "dropWhile (\<lambda>c. c \<noteq> sep) s = x21 # x22"
  then have "length (dropWhile (\<lambda>c. c \<noteq> sep) s) = Suc (length x22)" by simp
  moreover have "length (dropWhile (\<lambda>c. c \<noteq> sep) s) \<le> length s"
    by (rule length_dropWhile_le)
  ultimately show "((x22, sep), (s, sep)) \<in> measure (\<lambda>(s, sep). length s)" by simp
qed

declare Split.simps [simp del]

text \<open>
  \<^verbatim>\<open>strings.ToLower\<close> and \<^verbatim>\<open>strings.ToUpper\<close> on ASCII strings: Go's fast path for a
  string whose bytes are all below \<^verbatim>\<open>utf8.RuneSelf\<close> (0x80) adds \<^verbatim>\<open>'a' - 'A'\<close> to each
  byte in \<^verbatim>\<open>'A'..'Z'\<close> (and subtracts it from each byte in \<^verbatim>\<open>'a'..'z'\<close>). Bytes outside
  ASCII are not modelled (Go maps runes there) and are left as they are; the keyword
  list of this file is ASCII.
\<close>

definition isASCII :: "string \<Rightarrow> bool" where
  "isASCII s = list_all (\<lambda>c. (of_char c :: nat) < 128) s"

definition isUpperByte :: "char \<Rightarrow> bool" where
  "isUpperByte c = ((65::nat) \<le> of_char c \<and> (of_char c :: nat) \<le> 90)"

definition isLowerByte :: "char \<Rightarrow> bool" where
  "isLowerByte c = ((97::nat) \<le> of_char c \<and> (of_char c :: nat) \<le> 122)"

definition toLowerByte :: "char \<Rightarrow> char" where
  "toLowerByte c = (if isUpperByte c then char_of ((of_char c :: nat) + 32) else c)"

definition toUpperByte :: "char \<Rightarrow> char" where
  "toUpperByte c = (if isLowerByte c then char_of ((of_char c :: nat) - 32) else c)"

definition ToLower :: "string \<Rightarrow> string" where
  "ToLower s = map toLowerByte s"

definition ToUpper :: "string \<Rightarrow> string" where
  "ToUpper s = map toUpperByte s"

text \<open>
  \<^verbatim>\<open>strconv.FormatInt(i, 10)\<close>: the decimal digits of \<open>i\<close>, most significant first,
  after a minus sign when \<open>i\<close> is negative.
\<close>

function formatDecimal :: "nat \<Rightarrow> string" where
  "formatDecimal n =
     (if n < 10 then [''0123456789'' ! n]
      else formatDecimal (n div 10) @ [''0123456789'' ! (n mod 10)])"
  by pat_completeness auto
termination
  by (relation "measure (\<lambda>n. n)") auto

declare formatDecimal.simps [simp del]

definition FormatInt :: "int \<Rightarrow> string" where
  "FormatInt i = (if i < 0 then CHR ''-'' # formatDecimal (nat (- i)) else formatDecimal (nat i))"

text \<open>
  \<^verbatim>\<open>fmt.Sprintf\<close> for the formats of this file: text with \<^verbatim>\<open>%s\<close> directives and
  string operands. Each \<^verbatim>\<open>%s\<close> is replaced by the next operand, which is copied as it
  is (a \<^verbatim>\<open>%\<close> inside an operand is not a directive); a \<^verbatim>\<open>%s\<close> with no operand left
  prints \<^verbatim>\<open>%!s(MISSING)\<close>, operands left over are reported at the end, and a \<^verbatim>\<open>%\<close> that
  ends the format prints \<^verbatim>\<open>%!(NOVERB)\<close>. Other verbs and flags are outside the model
  (\<open>onlyStringVerbs\<close> says that a format has none); they are copied through.
\<close>

fun extraOperands :: "string list \<Rightarrow> string" where
  "extraOperands [] = []"
| "extraOperands [a] = ''string='' @ a"
| "extraOperands (a # b # bs) = ''string='' @ a @ '', '' @ extraOperands (b # bs)"

fun Sprintf :: "string \<Rightarrow> string list \<Rightarrow> string" where
  "Sprintf [] [] = []"
| "Sprintf [] (a # as) = ''%!(EXTRA '' @ extraOperands (a # as) @ '')''"
| "Sprintf [c] as = (if c = CHR ''%'' then ''%!(NOVERB)'' @ Sprintf [] as else c # Sprintf [] as)"
| "Sprintf (c # d # fmt) as =
     (if c = CHR ''%'' \<and> d = CHR ''s'' then
        (case as of
           [] \<Rightarrow> ''%!s(MISSING)'' @ Sprintf fmt []
         | a # as' \<Rightarrow> a @ Sprintf fmt as')
      else c # Sprintf (d # fmt) as)"

fun onlyStringVerbs :: "string \<Rightarrow> bool" where
  "onlyStringVerbs [] = True"
| "onlyStringVerbs [c] = (c \<noteq> CHR ''%'')"
| "onlyStringVerbs (c # d # fmt) =
     (if c = CHR ''%'' then d = CHR ''s'' \<and> onlyStringVerbs fmt else onlyStringVerbs (d # fmt))"

subsection \<open>The operator table\<close>

text \<open>
  \<^verbatim>\<open>mssqlOperators\<close> is a Go map literal; a lookup of a key that is not in a Go map
  gives the zero value of the value type, here the empty string.
\<close>

definition mssqlOperators :: "string \<rightharpoonup> string" where
  "mssqlOperators = map_of
     [(''exact'', ''= ?''),
      (''iexact'', ''= UPPER(?)''),
      (''contains'', ''LIKE ?''),
      (''icontains'', ''LIKE UPPER(?)''),
      (''gt'', ''> ?''),
      (''gte'', ''>= ?''),
      (''lt'', ''< ?''),
      (''lte'', ''<= ?''),
      (''eq'', ''= ?''),
      (''ne'', ''!= ?''),
      (''startswith'', ''LIKE ?''),
      (''endswith'', ''LIKE ?''),
      (''istartswith'', ''LIKE UPPER(?)''),
      (''iendswith'', ''LIKE UPPER(?)'')]"

definition OperatorSQL :: "string \<Rightarrow> string" where
  "OperatorSQL operator = (case mssqlOperators operator of None \<Rightarrow> [] | Some v \<Rightarrow> v)"

subsection \<open>The reserved words\<close>

definition sqlServerKeywords :: string where
  "sqlServerKeywords = ''ADD,EXTERNAL,NATIONAL,SUBSTRING,ALL,FETCH,NCHAR,SUM,ALTER,FILE,NEXT,SYMMETRIC,AND,FILEGROUP,NOCHECK,THEN,ANY,FILESTREAM,NONCLUSTERED,TO,AS,FILLFACTOR,NOT,TOP,ASC,FOR,NULL,TRAN,AUTHORIZATION,FOREIGN,NULLIF,TRIGGER,BACKUP,FREETEXT,NUMERIC,TRUNCATE,BEGIN,FREETEXTTABLE,OF,TRY_CONVERT,BETWEEN,FROM,OFF,TSEQUAL,BROWSE,FUNCTION,ON,UNION,BULK,GOTO,OPEN,UNIQUE,BY,GRANT,OPENDATASOURCE,UNPIVOT,CASCADE,GROUP,OPENQUERY,UPDATE,CASE,HAVING,OPENROWSET,UPDATETEXT,CHECK,HOLDLOCK,OPENXML,USE,CHECKPOINT,IDENTITY,OPTION,USER,CLOSE,IF,OR,VALUES,CLUSTERED,IN,ORDER,VARYING,COALESCE,INDEX,OUTER,VIEW,COLLATE,INNER,OVER,WAITFOR,COLUMN,INSERT,PERCENT,WHEN,COMMIT,INTERSECT,PIVOT,WHERE,COMPUTE,INTO,PLAN,WHILE,CONSTRAINT,IS,PRECISION,WITH,CONTAINS,ISNULL,PRIMARY,WITHIN GROUP,CONTAINSTABLE,JOIN,PRINT,WRITETEXT,CONTINUE,KEY,PROC,CONVERT,KILL,PROCEDURE,CREATE,LEFT,PUBLIC,CROSS,LIKE,RAISERROR,CURRENT,LINENO,READ,CURRENT_DATE,LOAD,READTEXT,CURRENT_TIME,MERGE,RECONFIGURE,CURRENT_TIMESTAMP,MINUTE,REFERENCES,CURSOR,MONEY,REPLICATION,DATABASE,NATIONAL,RESTORE,TYPE,DESC,key_type,interval''"

text \<open>
  \<^verbatim>\<open>init\<close> fills the set \<^verbatim>\<open>SqlServerKeywords\<close> (a map to the empty struct): it splits the
  list at the commas and stores the lower-cased form of every keyword.
  \<^verbatim>\<open>IsSqlServerKeyword\<close> looks its argument up as it is.
\<close>

definition keywordList :: "string list" where
  "keywordList = Split sqlServerKeywords CHR '',''"

definition SqlServerKeywords :: "string \<rightharpoonup> unit" where
  "SqlServerKeywords = fold (\<lambda>keyword m. m(ToLower keyword \<mapsto> ())) keywordList Map.empty"

definition IsSqlServerKeyword :: "string \<Rightarrow> bool" where
  "IsSqlServerKeyword key = (case SqlServerKeywords key of None \<Rightarrow> False | Some _ \<Rightarrow> True)"

subsection \<open>Placeholder rewriting\<close>

text \<open>
  \<^verbatim>\<open>ReplaceMarks\<close> rewrites the string its argument points to; the model returns the
  new string. The counter \<open>i\<close> is a Go \<^verbatim>\<open>int\<close> that runs from 0 to \<^verbatim>\<open>len(ss)-2\<close>, so it is
  never negative and \<^verbatim>\<open>i+1\<close> is at most the length of the query, which a Go string
  keeps below \<open>2^63\<close>: the conversion \<^verbatim>\<open>int64(i+1)\<close> never wraps. The loop is entered
  only when \<^verbatim>\<open>len(ss) > 1\<close>, where \<^verbatim>\<open>len(ss)-1\<close> is positive and \<^verbatim>\<open>ss[i]\<close> is in range.
\<close>

function ReplaceMarks_loop :: "string list \<Rightarrow> nat \<Rightarrow> string \<Rightarrow> string" where
  "ReplaceMarks_loop ss i query =
     (if i < length ss - 1
      then ReplaceMarks_loop ss (i + 1) (query @ ss ! i @ ''$'' @ FormatInt (int (i + 1)))
      else query)"
  by pat_completeness auto
termination
  by (relation "measure (\<lambda>(ss, i, query). length ss - 1 - i)") auto

declare ReplaceMarks_loop.simps [simp del]

definition ReplaceMarks :: "string \<Rightarrow> string" where
  "ReplaceMarks query =
     (let ss = Split query CHR ''?'' in
      if length ss > 1
      then ReplaceMarks_loop ss 0 [] @ ss ! (length ss - 1)
      else query)"

subsection \<open>Catalog queries\<close>

definition ShowColumnsQuery_sql :: string where
  "ShowColumnsQuery_sql =
     ''select'' @ [CHR 0x0A] @
     [CHR 0x09] @ ''COLUMN_NAME,'' @ [CHR 0x0A] @
     [CHR 0x09] @ ''DATA_TYPE,'' @ [CHR 0x0A] @
     [CHR 0x09] @ ''IS_NULLABLE'' @ [CHR 0x0A] @
     ''from'' @ [CHR 0x0A] @
     [CHR 0x09] @ ''INFORMATION_SCHEMA.COLUMNS'' @ [CHR 0x0A] @
     ''where'' @ [CHR 0x0A] @
     [CHR 0x09] @ ''TABLE_SCHEMA not in ('sys', 'INFORMATION_SCHEMA')'' @ [CHR 0x0A] @
     [CHR 0x09] @ ''and TABLE_NAME = '%s';''"

definition ShowColumnsQuery :: "string \<Rightarrow> string" where
  "ShowColumnsQuery table = Sprintf ShowColumnsQuery_sql [table]"

text \<open>
  \<^verbatim>\<open>IndexExists\<close> hands the query to the injected \<^verbatim>\<open>dbQuerier\<close> and scans the row it
  gets into \<^verbatim>\<open>cnt\<close>. A row is modelled by what \<^verbatim>\<open>Scan\<close> does with it: the value it
  stores into its destination, if it stores one, and the error it returns, if any
  (a scan that fails before it converts the column stores nothing). The Go code
  calls \<^verbatim>\<open>row.Scan(&cnt)\<close> as a statement: the error it returns is dropped.
\<close>

record 'e Row =
  stored :: "int option"
  scanError :: "'e option"

type_synonym ('ctx, 'e) dbQuerier = "'ctx \<Rightarrow> string \<Rightarrow> 'e Row"

definition Scan :: "'e Row \<Rightarrow> int \<Rightarrow> 'e option \<times> int" where
  "Scan row dest = (scanError row, (case stored row of None \<Rightarrow> dest | Some v \<Rightarrow> v))"

definition countIndexSql :: string where
  "countIndexSql =
     ''SELECT'' @ [CHR 0x0A] @
     [CHR 0x09] @ ''COUNT(*) AS IndexCount'' @ [CHR 0x0A] @
     ''FROM'' @ [CHR 0x0A] @
     [CHR 0x09] @ ''sys.indexes i'' @ [CHR 0x0A] @
     ''INNER JOIN sys.objects o ON'' @ [CHR 0x0A] @
     [CHR 0x09] @ ''i.object_id = o.object_id'' @ [CHR 0x0A] @
     ''WHERE'' @ [CHR 0x0A] @
     [CHR 0x09] @ ''o.type = 'U'' @ [CHR 0x27, CHR 0x0A] @
     [CHR 0x09] @ ''AND o.name = '%s'' @ [CHR 0x27, CHR 0x0A] @
     [CHR 0x09] @ ''AND i.name = '%s'' @ [CHR 0x27]"

definition IndexExists :: "'ctx \<Rightarrow> ('ctx, 'e) dbQuerier \<Rightarrow> string \<Rightarrow> string \<Rightarrow> bool" where
  "IndexExists ctx db table name =
     (let query = Sprintf countIndexSql [table, name];
          row = db ctx query;
          cnt = 0;
          (err, cnt) = Scan row cnt
      in cnt > 0)"

subsection \<open>Capabilities\<close>

text \<open>
  \<^verbatim>\<open>GenerateSpecifyIndex\<close> writes one line to the debug log and returns the empty
  string; the log is modelled as the list of the lines printed so far.
  \<^verbatim>\<open>HasReturningID\<close> looks at neither argument (the query is a pointer, which may be
  nil).
\<close>

definition GenerateSpecifyIndex ::
    "string \<Rightarrow> int \<Rightarrow> string list \<Rightarrow> string list \<Rightarrow> string \<times> string list" where
  "GenerateSpecifyIndex tableName useIndex indexes debugLog =
     ([], debugLog @ [''[WARN] Not support any specifying index action, so that action is ignored''])"

definition HasReturningID :: "'mi \<Rightarrow> string option \<Rightarrow> bool" where
  "HasReturningID mi query = False"

subsection \<open>Notions the properties are stated with\<close>

text \<open>
  The operator names the generation engine may ask for, and the upper-casing of a
  fragment's markers: every \<^verbatim>\<open>?\<close> wrapped as \<^verbatim>\<open>UPPER(?)\<close>.
\<close>

definition supportedOperators :: "string list" where
  "supportedOperators =
     [''exact'', ''iexact'', ''contains'', ''icontains'', ''gt'', ''gte'', ''lt'', ''lte'',
      ''eq'', ''ne'', ''startswith'', ''endswith'', ''istartswith'', ''iendswith'']"

definition wrapUpper :: "string \<Rightarrow> string" where
  "wrapUpper frag = concat (map (\<lambda>c. if c = CHR ''?'' then ''UPPER(?)'' else [c]) frag)"

text \<open>
  The rewriting \<^verbatim>\<open>ReplaceMarks\<close> is specified to do, read off a query from left to
  right: the marker met when \<open>i - 1\<close> markers have gone by becomes \<^verbatim>\<open>$\<close> followed by
  the decimal digits of \<open>i\<close>, and every other character is kept.
\<close>

fun numberMarks :: "nat \<Rightarrow> string \<Rightarrow> string" where
  "numberMarks i [] = []"
| "numberMarks i (c # cs) =
     (if c = CHR ''?'' then ''$'' @ FormatInt (int i) @ numberMarks (i + 1) cs
      else c # numberMarks i cs)"

text \<open>
  The number of places of a text at which a pattern occurs (Go's \<^verbatim>\<open>strings.Count\<close>
  leaves out overlapping occurrences; the two agree when the answer is 0 or 1).
\<close>

fun occurrences :: "string \<Rightarrow> string \<Rightarrow> nat" where
  "occurrences pat [] = (if pat = [] then 1 else 0)"
| "occurrences pat (c # cs) = (if prefix pat (c # cs) then 1 else 0) + occurrences pat cs"

text \<open>
  Two functions used in the proofs only: \<^verbatim>\<open>strings.Join\<close> for a one-byte separator,
  the inverse of \<open>Split\<close>, and the text the loop of \<^verbatim>\<open>ReplaceMarks\<close> builds from the
  pieces of its query.
\<close>

fun Join :: "string list \<Rightarrow> char \<Rightarrow> string" where
  "Join [] sep = []"
| "Join [x] sep = x"
| "Join (x # y # ys) sep = x @ sep # Join (y # ys) sep"

fun joinNumbered :: "nat \<Rightarrow> string list \<Rightarrow> string" where
  "joinNumbered i [] = []"
| "joinNumbered i [x] = x"
| "joinNumbered i (x # y # ys) = x @ ''$'' @ FormatInt (int i) @ joinNumbered (i + 1) (y # ys)"

section \<open>Operator resolution\<close>

lemma dom_mssqlOperators: "dom mssqlOperators = set supportedOperators"
  by (simp add: mssqlOperators_def supportedOperators_def dom_map_of_conv_image_fst)

lemma OperatorSQL_values:
  "OperatorSQL ''exact'' = ''= ?''"
  "OperatorSQL ''iexact'' = ''= UPPER(?)''"
  "OperatorSQL ''contains'' = ''LIKE ?''"
  "OperatorSQL ''icontains'' = ''LIKE UPPER(?)''"
  "OperatorSQL ''gt'' = ''> ?''"
  "OperatorSQL ''gte'' = ''>= ?''"
  "OperatorSQL ''lt'' = ''< ?''"
  "OperatorSQL ''lte'' = ''<= ?''"
  "OperatorSQL ''eq'' = ''= ?''"
  "OperatorSQL ''ne'' = ''!= ?''"
  "OperatorSQL ''startswith'' = ''LIKE ?''"
  "OperatorSQL ''endswith'' = ''LIKE ?''"
  "OperatorSQL ''istartswith'' = ''LIKE UPPER(?)''"
  "OperatorSQL ''iendswith'' = ''LIKE UPPER(?)''"
  by (simp_all add: OperatorSQL_def mssqlOperators_def)

lemma OperatorSQL_unknown_aux: "mssqlOperators operator = None \<Longrightarrow> OperatorSQL operator = []"
  by (simp add: OperatorSQL_def)

text \<open>
  C2. Every operator name of the supported set has a fragment that is not empty and
  holds the marker \<^verbatim>\<open>?\<close> exactly once.
\<close>

theorem OperatorSQL_supported_one_marker:
  "\<forall>operator \<in> set supportedOperators.
     OperatorSQL operator \<noteq> [] \<and> count_list (OperatorSQL operator) CHR ''?'' = 1"
  by (simp add: supportedOperators_def OperatorSQL_values)

theorem OperatorSQL_supported_one_marker_witness:
  "''icontains'' \<in> set supportedOperators
   \<and> OperatorSQL ''icontains'' \<noteq> []
   \<and> count_list (OperatorSQL ''icontains'') CHR ''?'' = 1"
proof -
  have m: "''icontains'' \<in> set supportedOperators"
    by (simp add: supportedOperators_def)
  from OperatorSQL_supported_one_marker m show ?thesis
    by blast
qed

text \<open>
  C5. An operator name outside the supported set is not a key of the table, and the
  lookup gives the empty string (the model is a total function: a Go map lookup of
  a missing key does not panic).
\<close>

theorem OperatorSQL_unknown_empty:
  "operator \<notin> set supportedOperators \<Longrightarrow> OperatorSQL operator = []"
proof -
  assume "operator \<notin> set supportedOperators"
  then have "operator \<notin> dom mssqlOperators"
    by (simp only: dom_mssqlOperators not_False_eq_True)
  then have "mssqlOperators operator = None"
    by (simp add: domIff)
  then show ?thesis
    by (rule OperatorSQL_unknown_aux)
qed

theorem OperatorSQL_unknown_empty_witness:
  "''regex'' \<notin> set supportedOperators \<and> OperatorSQL ''regex'' = []"
proof -
  have n: "''regex'' \<notin> set supportedOperators"
    by (simp add: supportedOperators_def)
  from n OperatorSQL_unknown_empty [OF n] show ?thesis
    by simp
qed

text \<open>
  C6. The fragment of each case-insensitive operator contains \<^verbatim>\<open>UPPER(?)\<close> and has a
  single marker, so that marker is the wrapped one; it is the fragment of the
  case-sensitive operator with the marker wrapped. The case-sensitive fragments do
  not mention \<^verbatim>\<open>UPPER\<close>. The fragments are constants: no bound value reaches them.
\<close>

theorem OperatorSQL_case_insensitive_wraps_marker:
  "(\<forall>operator \<in> set [''iexact'', ''icontains'', ''istartswith'', ''iendswith''].
      sublist ''UPPER(?)'' (OperatorSQL operator)
      \<and> count_list (OperatorSQL operator) CHR ''?'' = 1)
   \<and> (\<forall>operator \<in> set [''exact'', ''contains'', ''startswith'', ''endswith''].
      \<not> sublist ''UPPER'' (OperatorSQL operator)
      \<and> OperatorSQL (CHR ''i'' # operator) = wrapUpper (OperatorSQL operator))"
  by (simp add: OperatorSQL_values wrapUpper_def sublist_code(3))

theorem OperatorSQL_case_insensitive_wraps_marker_witness:
  "sublist ''UPPER(?)'' (OperatorSQL ''istartswith'')
   \<and> count_list (OperatorSQL ''istartswith'') CHR ''?'' = 1
   \<and> \<not> sublist ''UPPER'' (OperatorSQL ''startswith'')
   \<and> OperatorSQL ''istartswith'' = wrapUpper (OperatorSQL ''startswith'')"
proof -
  have i: "''istartswith'' \<in> set [''iexact'', ''icontains'', ''istartswith'', ''iendswith'']"
    by simp
  have c: "''startswith'' \<in> set [''exact'', ''contains'', ''startswith'', ''endswith'']"
    by simp
  from OperatorSQL_case_insensitive_wraps_marker i c show ?thesis
    by blast
qed

text \<open>
  C10. The table gives \<^verbatim>\<open>exact\<close> and \<^verbatim>\<open>eq\<close> the same fragment \<^verbatim>\<open>= ?\<close>, and gives
  \<^verbatim>\<open>contains\<close>, \<^verbatim>\<open>startswith\<close> and \<^verbatim>\<open>endswith\<close> the same fragment \<^verbatim>\<open>LIKE ?\<close>.
\<close>

theorem OperatorSQL_shared_fragments:
  "OperatorSQL ''exact'' = ''= ?'' \<and> OperatorSQL ''eq'' = ''= ?''
   \<and> OperatorSQL ''contains'' = ''LIKE ?''
   \<and> OperatorSQL ''startswith'' = ''LIKE ?''
   \<and> OperatorSQL ''endswith'' = ''LIKE ?''"
  by (simp add: OperatorSQL_values)

section \<open>Placeholder rewriting\<close>

subsection \<open>Facts about \<open>Split\<close>\<close>

lemma Split_Nil: "Split [] sep = [[]]"
  by (simp add: Split.simps)

lemma Split_sep: "Split (sep # cs) sep = [] # Split cs sep"
  by (subst Split.simps) simp

lemma Split_other:
  assumes "c \<noteq> sep"
  shows "Split (c # cs) sep = (c # hd (Split cs sep)) # tl (Split cs sep)"
proof -
  let ?P = "\<lambda>c. c \<noteq> sep"
  have dw: "dropWhile ?P (c # cs) = dropWhile ?P cs"
    and tw: "takeWhile ?P (c # cs) = c # takeWhile ?P cs"
    using assms by simp_all
  show ?thesis
  proof (cases "dropWhile ?P cs")
    case Nil
    have "Split cs sep = [cs]"
      by (subst Split.simps) (simp only: Nil list.case)
    moreover have "Split (c # cs) sep = [c # cs]"
      by (subst Split.simps) (simp only: dw Nil list.case)
    ultimately show ?thesis by simp
  next
    case (Cons d rest)
    have "Split cs sep = takeWhile ?P cs # Split rest sep"
      by (subst Split.simps) (simp only: Cons list.case)
    moreover have "Split (c # cs) sep = (c # takeWhile ?P cs) # Split rest sep"
      by (subst Split.simps) (simp only: dw tw Cons list.case)
    ultimately show ?thesis by simp
  qed
qed

lemma Split_not_Nil: "Split s sep \<noteq> []"
  by (subst Split.simps) (simp split: list.split)

lemma length_Split: "length (Split s sep) = Suc (count_list s sep)"
proof (induction s)
  case Nil
  show ?case by (simp add: Split_Nil)
next
  case (Cons c cs)
  show ?case
  proof (cases "c = sep")
    case True
    with Cons show ?thesis by (simp add: Split_sep)
  next
    case False
    moreover have "length (tl (Split cs sep)) = length (Split cs sep) - 1" by simp
    ultimately show ?thesis using Cons by (simp add: Split_other)
  qed
qed

lemma Split_no_sep: "sep \<notin> set s \<Longrightarrow> Split s sep = [s]"
proof -
  assume "sep \<notin> set s"
  then have "dropWhile (\<lambda>c. c \<noteq> sep) s = []"
    by auto
  then show ?thesis
    by (subst Split.simps) (simp only: list.case)
qed

lemma Split_append_sep:
  assumes "sep \<notin> set x"
  shows "Split (x @ sep # rest) sep = x # Split rest sep"
proof -
  let ?P = "\<lambda>c. c \<noteq> sep"
  from assms have all: "\<And>c. c \<in> set x \<Longrightarrow> ?P c"
    by auto
  have "dropWhile ?P (x @ sep # rest) = dropWhile ?P (sep # rest)"
    using all by (rule dropWhile_append2)
  then have dw: "dropWhile ?P (x @ sep # rest) = sep # rest"
    by simp
  have "takeWhile ?P (x @ sep # rest) = x @ takeWhile ?P (sep # rest)"
    using all by (rule takeWhile_append2)
  then have tw: "takeWhile ?P (x @ sep # rest) = x"
    by simp
  show ?thesis
    by (subst Split.simps) (simp only: dw tw list.case)
qed

lemma Split_Join:
  "xs \<noteq> [] \<Longrightarrow> list_all (\<lambda>x. sep \<notin> set x) xs \<Longrightarrow> Split (Join xs sep) sep = xs"
proof (induction xs sep rule: Join.induct)
  case (1 sep)
  then show ?case by simp
next
  case (2 x sep)
  then show ?case by (simp add: Split_no_sep)
next
  case (3 x y ys sep)
  then show ?case by (simp add: Split_append_sep)
qed

subsection \<open>The loop of \<^verbatim>\<open>ReplaceMarks\<close>\<close>

lemma joinNumbered_Cons_head:
  "joinNumbered i ((c # y) # ys) = c # joinNumbered i (y # ys)"
  by (cases ys) simp_all

lemma joinNumbered_Split: "joinNumbered i (Split s CHR ''?'') = numberMarks i s"
proof (induction s arbitrary: i)
  case Nil
  show ?case by (simp add: Split_Nil)
next
  case (Cons c cs)
  obtain y ys where S: "Split cs CHR ''?'' = y # ys"
    using Split_not_Nil [of cs "CHR ''?''"] by (cases "Split cs CHR ''?''") auto
  show ?case
  proof (cases "c = CHR ''?''")
    case True
    have "joinNumbered i ([] # y # ys) = ''$'' @ FormatInt (int i) @ joinNumbered (i + 1) (y # ys)"
      by simp
    with True S Cons.IH [of "i + 1"] show ?thesis
      by (simp add: Split_sep)
  next
    case False
    then have "Split (c # cs) CHR ''?'' = (c # y) # ys"
      using S by (simp add: Split_other)
    with False S Cons.IH [of i] show ?thesis
      by (simp add: joinNumbered_Cons_head)
  qed
qed

lemma ReplaceMarks_loop_joinNumbered:
  "i < length ss \<Longrightarrow>
   ReplaceMarks_loop ss i query @ ss ! (length ss - 1) = query @ joinNumbered (i + 1) (drop i ss)"
proof (induction ss i query rule: ReplaceMarks_loop.induct)
  case (1 ss i query)
  show ?case
  proof (cases "i < length ss - 1")
    case True
    then have lt: "i + 1 < length ss" by simp
    obtain y ys where d: "drop (i + 1) ss = y # ys"
      using lt by (cases "drop (i + 1) ss") auto
    have di: "drop i ss = ss ! i # y # ys"
      using "1.prems" d by (simp add: Cons_nth_drop_Suc [symmetric])
    have "ReplaceMarks_loop ss i query @ ss ! (length ss - 1) =
          ReplaceMarks_loop ss (i + 1) (query @ ss ! i @ ''$'' @ FormatInt (int (i + 1)))
            @ ss ! (length ss - 1)"
      using True by (subst ReplaceMarks_loop.simps) simp
    also have "\<dots> = (query @ ss ! i @ ''$'' @ FormatInt (int (i + 1)))
          @ joinNumbered (i + 1 + 1) (drop (i + 1) ss)"
      using "1.IH" [OF True lt] .
    also have "\<dots> = query @ joinNumbered (i + 1) (drop i ss)"
      using d di by simp
    finally show ?thesis .
  next
    case False
    with "1.prems" have e: "i = length ss - 1" by simp
    have "drop (Suc i) ss = []"
      using "1.prems" e by simp
    then have "drop i ss = [ss ! i]"
      using "1.prems" Cons_nth_drop_Suc [of i ss] by simp
    moreover have "ReplaceMarks_loop ss i query = query"
      using False by (subst ReplaceMarks_loop.simps) simp
    ultimately show ?thesis using e by simp
  qed
qed

lemma numberMarks_no_marker: "CHR ''?'' \<notin> set s \<Longrightarrow> numberMarks i s = s"
  by (induction s) auto

lemma ReplaceMarks_no_marker: "CHR ''?'' \<notin> set query \<Longrightarrow> ReplaceMarks query = query"
  by (simp add: ReplaceMarks_def Let_def length_Split count_list_0_iff)

lemma ReplaceMarks_numberMarks: "ReplaceMarks query = numberMarks 1 query"
proof (cases "CHR ''?'' \<in> set query")
  case False
  then show ?thesis
    by (simp add: ReplaceMarks_no_marker numberMarks_no_marker)
next
  case True
  then have "count_list query CHR ''?'' \<noteq> 0"
    by (simp add: count_list_0_iff)
  then have len: "length (Split query CHR ''?'') > 1"
    by (simp add: length_Split)
  then have "ReplaceMarks query =
      ReplaceMarks_loop (Split query CHR ''?'') 0 [] @
        Split query CHR ''?'' ! (length (Split query CHR ''?'') - 1)"
    by (simp add: ReplaceMarks_def Let_def)
  also have "\<dots> = [] @ joinNumbered (0 + 1) (drop 0 (Split query CHR ''?''))"
    by (rule ReplaceMarks_loop_joinNumbered) (simp add: Split_not_Nil)
  also have "\<dots> = numberMarks 1 query"
    by (simp add: joinNumbered_Split)
  finally show ?thesis .
qed

lemma numberMarks_append:
  "numberMarks i (xs @ ys) = numberMarks i xs @ numberMarks (i + count_list xs CHR ''?'') ys"
  by (induction xs arbitrary: i) simp_all

lemma numberMarks_example: "numberMarks 1 ''a=? AND b=?'' = ''a=$1 AND b=$2''"
  by (simp add: FormatInt_def formatDecimal.simps)

text \<open>
  C1. \<^verbatim>\<open>ReplaceMarks\<close> numbers the markers of any query from 1, left to right, and
  keeps every other character in place: the marker that follows a text \<open>pre\<close> gets
  the number of markers in \<open>pre\<close> plus one, whatever surrounds it (quotes are
  ordinary characters). A query with no marker comes back as it is, and
  \<^verbatim>\<open>a=? AND b=?\<close> becomes \<^verbatim>\<open>a=$1 AND b=$2\<close>.
\<close>

theorem ReplaceMarks_numbers_markers:
  "ReplaceMarks query = numberMarks 1 query
   \<and> ReplaceMarks (pre @ CHR ''?'' # post) =
       numberMarks 1 pre @ ''$'' @ FormatInt (int (count_list pre CHR ''?'' + 1))
         @ numberMarks (count_list pre CHR ''?'' + 2) post
   \<and> (CHR ''?'' \<notin> set query \<longrightarrow> ReplaceMarks query = query)
   \<and> ReplaceMarks ''a=? AND b=?'' = ''a=$1 AND b=$2''"
proof -
  have "numberMarks 1 (pre @ CHR ''?'' # post) =
      numberMarks 1 pre @ ''$'' @ FormatInt (int (count_list pre CHR ''?'' + 1))
        @ numberMarks (count_list pre CHR ''?'' + 2) post"
    by (simp add: numberMarks_append)
  then show ?thesis
    by (simp only: ReplaceMarks_numberMarks numberMarks_example)
       (simp add: numberMarks_no_marker)
qed

theorem ReplaceMarks_numbers_markers_witness:
  "CHR ''?'' \<notin> set ''no markers here''
   \<and> ReplaceMarks ''no markers here'' = ''no markers here''
   \<and> ReplaceMarks (''a='' @ CHR ''?'' # '' AND b=?'') = ''a=$1'' @ numberMarks 2 '' AND b=?''"
proof -
  have n: "CHR ''?'' \<notin> set ''no markers here''"
    by simp
  have f: "FormatInt (int (count_list ''a='' CHR ''?'' + 1)) = ''1''"
    by (simp add: FormatInt_def formatDecimal.simps)
  have m: "numberMarks 1 ''a='' = ''a=''"
    by simp
  from ReplaceMarks_numbers_markers [of "''no markers here''" "''a=''" "'' AND b=?''"] n
  have "ReplaceMarks ''no markers here'' = ''no markers here''"
    and "ReplaceMarks (''a='' @ CHR ''?'' # '' AND b=?'') =
      numberMarks 1 ''a='' @ ''$'' @ FormatInt (int (count_list ''a='' CHR ''?'' + 1))
        @ numberMarks (count_list ''a='' CHR ''?'' + 2) '' AND b=?''"
    by blast+
  with n f m show ?thesis
    by simp
qed

section \<open>Reserved words\<close>

subsection \<open>The keyword list\<close>

lemma keywordList_eq:
  "keywordList =
    [''ADD'', ''EXTERNAL'', ''NATIONAL'', ''SUBSTRING'', ''ALL'', ''FETCH'', ''NCHAR'',
      ''SUM'', ''ALTER'', ''FILE'', ''NEXT'', ''SYMMETRIC'', ''AND'', ''FILEGROUP'',
      ''NOCHECK'', ''THEN'', ''ANY'', ''FILESTREAM'', ''NONCLUSTERED'', ''TO'', ''AS'',
      ''FILLFACTOR'', ''NOT'', ''TOP'', ''ASC'', ''FOR'', ''NULL'', ''TRAN'',
      ''AUTHORIZATION'', ''FOREIGN'', ''NULLIF'', ''TRIGGER'', ''BACKUP'', ''FREETEXT'',
      ''NUMERIC'', ''TRUNCATE'', ''BEGIN'', ''FREETEXTTABLE'', ''OF'', ''TRY_CONVERT'',
      ''BETWEEN'', ''FROM'', ''OFF'', ''TSEQUAL'', ''BROWSE'', ''FUNCTION'', ''ON'',
      ''UNION'', ''BULK'', ''GOTO'', ''OPEN'', ''UNIQUE'', ''BY'', ''GRANT'',
      ''OPENDATASOURCE'', ''UNPIVOT'', ''CASCADE'', ''GROUP'', ''OPENQUERY'', ''UPDATE'',
      ''CASE'', ''HAVING'', ''OPENROWSET'', ''UPDATETEXT'', ''CHECK'', ''HOLDLOCK'',
      ''OPENXML'', ''USE'', ''CHECKPOINT'', ''IDENTITY'', ''OPTION'', ''USER'', ''CLOSE'',
      ''IF'', ''OR'', ''VALUES'', ''CLUSTERED'', ''IN'', ''ORDER'', ''VARYING'',
      ''COALESCE'', ''INDEX'', ''OUTER'', ''VIEW'', ''COLLATE'', ''INNER'', ''OVER'',
      ''WAITFOR'', ''COLUMN'', ''INSERT'', ''PERCENT'', ''WHEN'', ''COMMIT'',
      ''INTERSECT'', ''PIVOT'', ''WHERE'', ''COMPUTE'', ''INTO'', ''PLAN'', ''WHILE'',
      ''CONSTRAINT'', ''IS'', ''PRECISION'', ''WITH'', ''CONTAINS'', ''ISNULL'',
      ''PRIMARY'', ''WITHIN GROUP'', ''CONTAINSTABLE'', ''JOIN'', ''PRINT'', ''WRITETEXT'',
      ''CONTINUE'', ''KEY'', ''PROC'', ''CONVERT'', ''KILL'', ''PROCEDURE'', ''CREATE'',
      ''LEFT'', ''PUBLIC'', ''CROSS'', ''LIKE'', ''RAISERROR'', ''CURRENT'', ''LINENO'',
      ''READ'', ''CURRENT_DATE'', ''LOAD'', ''READTEXT'', ''CURRENT_TIME'', ''MERGE'',
      ''RECONFIGURE'', ''CURRENT_TIMESTAMP'', ''MINUTE'', ''REFERENCES'', ''CURSOR'',
      ''MONEY'', ''REPLICATION'', ''DATABASE'', ''NATIONAL'', ''RESTORE'', ''TYPE'',
      ''DESC'', ''key_type'', ''interval'']"
proof -
  let ?ks =
   "    [''ADD'', ''EXTERNAL'', ''NATIONAL'', ''SUBSTRING'', ''ALL'', ''FETCH'', ''NCHAR'',
      ''SUM'', ''ALTER'', ''FILE'', ''NEXT'', ''SYMMETRIC'', ''AND'', ''FILEGROUP'',
      ''NOCHECK'', ''THEN'', ''ANY'', ''FILESTREAM'', ''NONCLUSTERED'', ''TO'', ''AS'',
      ''FILLFACTOR'', ''NOT'', ''TOP'', ''ASC'', ''FOR'', ''NULL'', ''TRAN'',
      ''AUTHORIZATION'', ''FOREIGN'', ''NULLIF'', ''TRIGGER'', ''BACKUP'', ''FREETEXT'',
      ''NUMERIC'', ''TRUNCATE'', ''BEGIN'', ''FREETEXTTABLE'', ''OF'', ''TRY_CONVERT'',
      ''BETWEEN'', ''FROM'', ''OFF'', ''TSEQUAL'', ''BROWSE'', ''FUNCTION'', ''ON'',
      ''UNION'', ''BULK'', ''GOTO'', ''OPEN'', ''UNIQUE'', ''BY'', ''GRANT'',
      ''OPENDATASOURCE'', ''UNPIVOT'', ''CASCADE'', ''GROUP'', ''OPENQUERY'', ''UPDATE'',
      ''CASE'', ''HAVING'', ''OPENROWSET'', ''UPDATETEXT'', ''CHECK'', ''HOLDLOCK'',
      ''OPENXML'', ''USE'', ''CHECKPOINT'', ''IDENTITY'', ''OPTION'', ''USER'', ''CLOSE'',
      ''IF'', ''OR'', ''VALUES'', ''CLUSTERED'', ''IN'', ''ORDER'', ''VARYING'',
      ''COALESCE'', ''INDEX'', ''OUTER'', ''VIEW'', ''COLLATE'', ''INNER'', ''OVER'',
      ''WAITFOR'', ''COLUMN'', ''INSERT'', ''PERCENT'', ''WHEN'', ''COMMIT'',
      ''INTERSECT'', ''PIVOT'', ''WHERE'', ''COMPUTE'', ''INTO'', ''PLAN'', ''WHILE'',
      ''CONSTRAINT'', ''IS'', ''PRECISION'', ''WITH'', ''CONTAINS'', ''ISNULL'',
      ''PRIMARY'', ''WITHIN GROUP'', ''CONTAINSTABLE'', ''JOIN'', ''PRINT'', ''WRITETEXT'',
      ''CONTINUE'', ''KEY'', ''PROC'', ''CONVERT'', ''KILL'', ''PROCEDURE'', ''CREATE'',
      ''LEFT'', ''PUBLIC'', ''CROSS'', ''LIKE'', ''RAISERROR'', ''CURRENT'', ''LINENO'',
      ''READ'', ''CURRENT_DATE'', ''LOAD'', ''READTEXT'', ''CURRENT_TIME'', ''MERGE'',
      ''RECONFIGURE'', ''CURRENT_TIMESTAMP'', ''MINUTE'', ''REFERENCES'', ''CURSOR'',
      ''MONEY'', ''REPLICATION'', ''DATABASE'', ''NATIONAL'', ''RESTORE'', ''TYPE'',
      ''DESC'', ''key_type'', ''interval'']"
  have "sqlServerKeywords = Join ?ks CHR '',''"
    unfolding sqlServerKeywords_def by simp
  moreover have "Split (Join ?ks CHR '','') CHR '','' = ?ks"
    by (rule Split_Join) simp_all
  ultimately show ?thesis
    by (simp only: keywordList_def)
qed

lemmas lower_eval = ToLower_def toLowerByte_def isUpperByte_def char_of_def bit_Suc_0_iff

lemma lowered_keywordList:
  "map ToLower keywordList =
    [''add'', ''external'', ''national'', ''substring'', ''all'', ''fetch'', ''nchar'',
      ''sum'', ''alter'', ''file'', ''next'', ''symmetric'', ''and'', ''filegroup'',
      ''nocheck'', ''then'', ''any'', ''filestream'', ''nonclustered'', ''to'', ''as'',
      ''fillfactor'', ''not'', ''top'', ''asc'', ''for'', ''null'', ''tran'',
      ''authorization'', ''foreign'', ''nullif'', ''trigger'', ''backup'', ''freetext'',
      ''numeric'', ''truncate'', ''begin'', ''freetexttable'', ''of'', ''try_convert'',
      ''between'', ''from'', ''off'', ''tsequal'', ''browse'', ''function'', ''on'',
      ''union'', ''bulk'', ''goto'', ''open'', ''unique'', ''by'', ''grant'',
      ''opendatasource'', ''unpivot'', ''cascade'', ''group'', ''openquery'', ''update'',
      ''case'', ''having'', ''openrowset'', ''updatetext'', ''check'', ''holdlock'',
      ''openxml'', ''use'', ''checkpoint'', ''identity'', ''option'', ''user'', ''close'',
      ''if'', ''or'', ''values'', ''clustered'', ''in'', ''order'', ''varying'',
      ''coalesce'', ''index'', ''outer'', ''view'', ''collate'', ''inner'', ''over'',
      ''waitfor'', ''column'', ''insert'', ''percent'', ''when'', ''commit'',
      ''intersect'', ''pivot'', ''where'', ''compute'', ''into'', ''plan'', ''while'',
      ''constraint'', ''is'', ''precision'', ''with'', ''contains'', ''isnull'',
      ''primary'', ''within group'', ''containstable'', ''join'', ''print'', ''writetext'',
      ''continue'', ''key'', ''proc'', ''convert'', ''kill'', ''procedure'', ''create'',
      ''left'', ''public'', ''cross'', ''like'', ''raiserror'', ''current'', ''lineno'',
      ''read'', ''current_date'', ''load'', ''readtext'', ''current_time'', ''merge'',
      ''reconfigure'', ''current_timestamp'', ''minute'', ''references'', ''cursor'',
      ''money'', ''replication'', ''database'', ''national'', ''restore'', ''type'',
      ''desc'', ''key_type'', ''interval'']"
  unfolding keywordList_eq by (simp add: lower_eval)

subsection \<open>The lookup\<close>

lemma fold_keywords:
  "fold (\<lambda>keyword m. m(ToLower keyword \<mapsto> ())) ks m key =
     (if key \<in> set (map ToLower ks) then Some () else m key)"
  by (induction ks arbitrary: m) auto

lemma IsSqlServerKeyword_iff:
  "IsSqlServerKeyword key \<longleftrightarrow> key \<in> set (map ToLower keywordList)"
  by (simp add: IsSqlServerKeyword_def SqlServerKeywords_def fold_keywords)

lemma toLowerByte_not_upper: "\<not> isUpperByte (toLowerByte c)"
  by (simp add: toLowerByte_def isUpperByte_def)

lemma ToLower_not_upper: "\<not> list_ex isUpperByte (ToLower s)"
  by (simp add: ToLower_def list_ex_iff toLowerByte_not_upper)

lemma upper_not_keyword: "list_ex isUpperByte key \<Longrightarrow> \<not> IsSqlServerKeyword key"
  using ToLower_not_upper by (auto simp add: IsSqlServerKeyword_iff)

lemma toLowerByte_toUpperByte: "toLowerByte (toUpperByte c) = toLowerByte c"
proof (cases "isLowerByte c")
  case False
  then show ?thesis by (simp add: toUpperByte_def)
next
  case True
  then have r: "(of_char c :: nat) - 32 < 256" "(65::nat) \<le> of_char c - 32"
      "(of_char c :: nat) - 32 \<le> 90" "(of_char c :: nat) - 32 + 32 = of_char c"
    unfolding isLowerByte_def by arith+
  have v: "(of_char (char_of ((of_char c :: nat) - 32)) :: nat) = of_char c - 32"
    using r(1) by simp
  then have u: "isUpperByte (char_of ((of_char c :: nat) - 32))"
    using r(2,3) by (simp only: isUpperByte_def simp_thms)
  from u True have "toLowerByte (toUpperByte c) = char_of (of_char c :: nat)"
    by (simp only: toLowerByte_def toUpperByte_def if_True v r(4))
  moreover from True have "toLowerByte c = c"
    by (simp add: toLowerByte_def isUpperByte_def isLowerByte_def)
  ultimately show ?thesis by simp
qed

lemma ToLower_ToUpper: "ToLower (ToUpper s) = ToLower s"
  by (simp add: ToLower_def ToUpper_def toLowerByte_toUpperByte)

lemma add_is_keyword: "IsSqlServerKeyword ''add''"
  by (simp add: IsSqlServerKeyword_iff lowered_keywordList)

lemma table_not_keyword: "\<not> IsSqlServerKeyword ''table''"
  by (simp add: IsSqlServerKeyword_iff lowered_keywordList)

lemma ToUpper_add: "ToUpper ''add'' = ''ADD''"
  by (simp add: ToUpper_def toUpperByte_def isLowerByte_def char_of_def bit_Suc_0_iff)

text \<open>
  C3, as the code has it. \<^verbatim>\<open>IsSqlServerKeyword\<close> compares its argument, as it is, with
  the lower-cased keywords: it holds exactly for the lower-cased form of a listed
  keyword, and never for a string with an upper-case ASCII letter. It ignores case
  only for a candidate that has been lower-cased first: for an ASCII string, the
  lower-cased string and the lower-cased upper-cased string get the same answer.
  \<^verbatim>\<open>Table\<close>, \<^verbatim>\<open>TABLE\<close> and \<^verbatim>\<open>table\<close> all get the answer false (the list has no
  \<^verbatim>\<open>TABLE\<close>).
\<close>

theorem IsSqlServerKeyword_exact_lower_case_match:
  "(IsSqlServerKeyword key \<longleftrightarrow> key \<in> set (map ToLower keywordList))
   \<and> (list_ex isUpperByte key \<longrightarrow> \<not> IsSqlServerKeyword key)
   \<and> (isASCII key \<longrightarrow>
        IsSqlServerKeyword (ToLower (ToUpper key)) = IsSqlServerKeyword (ToLower key))
   \<and> \<not> IsSqlServerKeyword ''Table'' \<and> \<not> IsSqlServerKeyword ''TABLE''
   \<and> \<not> IsSqlServerKeyword ''table''"
proof -
  have "\<not> IsSqlServerKeyword ''Table''"
    by (rule upper_not_keyword) (simp add: isUpperByte_def)
  moreover have "\<not> IsSqlServerKeyword ''TABLE''"
    by (rule upper_not_keyword) (simp add: isUpperByte_def)
  ultimately show ?thesis
    using IsSqlServerKeyword_iff [of key] upper_not_keyword [of key] table_not_keyword
    by (simp add: ToLower_ToUpper)
qed

theorem IsSqlServerKeyword_exact_lower_case_match_witness:
  "list_ex isUpperByte ''ADD'' \<and> isASCII ''ADD''
   \<and> \<not> IsSqlServerKeyword ''ADD''
   \<and> IsSqlServerKeyword (ToLower (ToUpper ''ADD'')) = IsSqlServerKeyword (ToLower ''ADD'')"
proof -
  have u: "list_ex isUpperByte ''ADD''"
    by (simp add: isUpperByte_def)
  have a: "isASCII ''ADD''"
    by (simp add: isASCII_def)
  from u a IsSqlServerKeyword_exact_lower_case_match [of "''ADD''"] show ?thesis
    by blast
qed

text \<open>
  The check is not case-insensitive on its argument: \<^verbatim>\<open>add\<close> is reported as a
  keyword, and its upper-cased form \<^verbatim>\<open>ADD\<close> is not.
\<close>

theorem IsSqlServerKeyword_case_sensitive_counterexample:
  "IsSqlServerKeyword ''add'' \<and> ToUpper ''add'' = ''ADD'' \<and> \<not> IsSqlServerKeyword (ToUpper ''add'')"
proof -
  have "\<not> IsSqlServerKeyword ''ADD''"
    by (rule upper_not_keyword) (simp add: isUpperByte_def)
  with add_is_keyword ToUpper_add show ?thesis
    by simp
qed

section \<open>Catalog queries\<close>

text \<open>Both templates hold only \<^verbatim>\<open>%s\<close> directives, which is what \<open>Sprintf\<close> models.\<close>

lemma templates_onlyStringVerbs:
  "onlyStringVerbs ShowColumnsQuery_sql" "onlyStringVerbs countIndexSql"
  by (simp_all add: ShowColumnsQuery_sql_def countIndexSql_def)

lemma ShowColumnsQuery_text:
  "ShowColumnsQuery table =
     ''select'' @ [CHR 0x0A] @
     [CHR 0x09] @ ''COLUMN_NAME,'' @ [CHR 0x0A] @
     [CHR 0x09] @ ''DATA_TYPE,'' @ [CHR 0x0A] @
     [CHR 0x09] @ ''IS_NULLABLE'' @ [CHR 0x0A] @
     ''from'' @ [CHR 0x0A] @
     [CHR 0x09] @ ''INFORMATION_SCHEMA.COLUMNS'' @ [CHR 0x0A] @
     ''where'' @ [CHR 0x0A] @
     [CHR 0x09] @ ''TABLE_SCHEMA not in ('sys', 'INFORMATION_SCHEMA')'' @ [CHR 0x0A] @
     [CHR 0x09] @ ''and TABLE_NAME = '' @ [CHR 0x27] @ table @ [CHR 0x27] @ '';''"
  by (simp add: ShowColumnsQuery_def ShowColumnsQuery_sql_def)

lemma occurrences_self: "1 \<le> occurrences pat (pat @ post)"
proof (cases pat)
  case Nil
  then show ?thesis by (cases post) simp_all
next
  case (Cons c cs)
  then show ?thesis by simp
qed

lemma occurrences_embedded: "1 \<le> occurrences pat (pre @ pat @ post)"
proof (induction pre)
  case Nil
  show ?case using occurrences_self [of pat post] by simp
next
  case (Cons x pre)
  then show ?case by simp
qed

lemma ShowColumnsQuery_occurs: "1 \<le> occurrences table (ShowColumnsQuery table)"
proof -
  have "\<exists>pre post. ShowColumnsQuery table = pre @ table @ post"
    unfolding ShowColumnsQuery_text by (metis append.assoc)
  then show ?thesis
    using occurrences_embedded by auto
qed

text \<open>
  C9, as the code has it. \<^verbatim>\<open>ShowColumnsQuery\<close> puts the table name, as it is, into the
  one slot of its template, between the quotes of the \<^verbatim>\<open>TABLE_NAME\<close> filter; the
  template has a single \<^verbatim>\<open>%\<close>. So the name occurs in the query at least once, for
  every name; the query for \<^verbatim>\<open>Orders\<close> contains \<^verbatim>\<open>Orders\<close> at exactly one place.
\<close>

theorem ShowColumnsQuery_embeds_table_once:
  "ShowColumnsQuery table =
     ''select'' @ [CHR 0x0A] @
     [CHR 0x09] @ ''COLUMN_NAME,'' @ [CHR 0x0A] @
     [CHR 0x09] @ ''DATA_TYPE,'' @ [CHR 0x0A] @
     [CHR 0x09] @ ''IS_NULLABLE'' @ [CHR 0x0A] @
     ''from'' @ [CHR 0x0A] @
     [CHR 0x09] @ ''INFORMATION_SCHEMA.COLUMNS'' @ [CHR 0x0A] @
     ''where'' @ [CHR 0x0A] @
     [CHR 0x09] @ ''TABLE_SCHEMA not in ('sys', 'INFORMATION_SCHEMA')'' @ [CHR 0x0A] @
     [CHR 0x09] @ ''and TABLE_NAME = '' @ [CHR 0x27] @ table @ [CHR 0x27] @ '';''
   \<and> count_list ShowColumnsQuery_sql CHR ''%'' = 1
   \<and> 1 \<le> occurrences table (ShowColumnsQuery table)
   \<and> occurrences ''Orders'' (ShowColumnsQuery ''Orders'') = 1"
proof -
  have "count_list ShowColumnsQuery_sql CHR ''%'' = 1"
    by (simp add: ShowColumnsQuery_sql_def)
  moreover have "occurrences ''Orders'' (ShowColumnsQuery ''Orders'') = 1"
    by (simp add: ShowColumnsQuery_text)
  moreover note ShowColumnsQuery_occurs [of table]
  ultimately show ?thesis
    using ShowColumnsQuery_text [of table] by (simp only: simp_thms)
qed

text \<open>
  The name need not occur exactly once: the template's own text holds the word
  \<^verbatim>\<open>select\<close>, so the query for a table named \<^verbatim>\<open>select\<close> contains that name at two
  places, once in the template's first line and once in the slot.
\<close>

theorem ShowColumnsQuery_select_twice_counterexample:
  "occurrences ''select'' (ShowColumnsQuery ''select'') = 2"
  by (simp add: ShowColumnsQuery_text)

lemma IndexExists_stored:
  "IndexExists ctx db table name =
     (case stored (db ctx (Sprintf countIndexSql [table, name])) of
        None \<Rightarrow> False
      | Some n \<Rightarrow> 0 < n)"
  by (simp add: IndexExists_def Scan_def Let_def split: option.split)

lemma IndexExists_error_ignored:
  "IndexExists ctx (\<lambda>c q. (db c q)\<lparr>scanError := e c q\<rparr>) table name = IndexExists ctx db table name"
  by (simp add: IndexExists_stored)

text \<open>
  C4, as the code has it. \<^verbatim>\<open>IndexExists\<close> returns a boolean and nothing else: the
  error of the scan is dropped, and the answer is whether the count the scan stored
  is positive, false when it stored none (\<^verbatim>\<open>cnt\<close> keeps its zero value). Whatever error
  the collaborator reports, the answer is the same.
\<close>

theorem IndexExists_answer_ignores_scan_error:
  "IndexExists ctx db table name =
     (case stored (db ctx (Sprintf countIndexSql [table, name])) of
        None \<Rightarrow> False
      | Some n \<Rightarrow> 0 < n)
   \<and> IndexExists ctx (\<lambda>c q. (db c q)\<lparr>scanError := e c q\<rparr>) table name =
       IndexExists ctx db table name"
  by (rule conjI [OF IndexExists_stored IndexExists_error_ignored])

text \<open>
  A failed scan is turned into a boolean answer: when the collaborator fails with
  an error and stores nothing, \<^verbatim>\<open>IndexExists\<close> answers false, as it does when the query
  succeeds and counts no index.
\<close>

theorem IndexExists_swallows_error_counterexample:
  "IndexExists () (\<lambda>ctx query. \<lparr>stored = None, scanError = Some ''connection refused''\<rparr>)
       ''Orders'' ''idx_orders'' = False
   \<and> IndexExists () (\<lambda>ctx query. \<lparr>stored = Some 0, scanError = (None :: string option)\<rparr>)
       ''Orders'' ''idx_orders'' = False"
  by (simp add: IndexExists_def Scan_def Let_def)

section \<open>Capabilities\<close>

text \<open>
  C7. \<^verbatim>\<open>HasReturningID\<close> answers false for every model and every query, a nil query
  pointer included.
\<close>

theorem HasReturningID_always_false: "HasReturningID mi query = False"
  by (simp add: HasReturningID_def)

text \<open>
  C8. \<^verbatim>\<open>GenerateSpecifyIndex\<close> returns the empty string for every table name, mode and
  index list; its only effect is one warning line added to the debug log.
\<close>

theorem GenerateSpecifyIndex_empty_and_warns:
  "fst (GenerateSpecifyIndex tableName useIndex indexes debugLog) = []
   \<and> snd (GenerateSpecifyIndex tableName useIndex indexes debugLog) =
       debugLog @ [''[WARN] Not support any specifying index action, so that action is ignored'']"
  by (simp add: GenerateSpecifyIndex_def)

end
